theory Spec2Isabelle
  imports Complex_Main "HOL-Library.Sublist"
begin

section \<open>The Telegram front end of freqtrade (freqtrade/rpc/telegram.py)\<close>

text \<open>
  The module keeps three process-wide variables, \<^verbatim>\<open>_CONF\<close>, \<^verbatim>\<open>_CONVERSATION\<close> and
  \<^verbatim>\<open>_UPDATED_COINS\<close>, and talks to three collaborators: the chat transport (the bot),
  the trading backend (the \<^verbatim>\<open>rpc_*\<close> functions, \<^verbatim>\<open>exchange.validate_pairs\<close>) and the
  persistence of the configuration (\<^verbatim>\<open>update_config\<close>). The model threads one record
  holding the three variables through every function, records each call to the transport
  and to the persistence in the order it happens, and returns a raised exception as a value
  next to the state reached when it was raised.

  Strings are lists of 8-bit characters; the string functions below follow Python on ASCII
  text. A Python name with a leading underscore loses it; a decorated handler \<^verbatim>\<open>_x\<close> is
  \<open>x_command\<close> and the function under the decorator is \<open>x_handler\<close>.
\<close>

subsection \<open>Python's string functions\<close>

definition is_space :: "char \<Rightarrow> bool" where
  \<comment> \<open>the ASCII characters that \<^verbatim>\<open>str.strip()\<close> and \<^verbatim>\<open>int()\<close> treat as whitespace\<close>
  "is_space c = (let n = (of_char c :: nat) in (9 \<le> n \<and> n \<le> 13) \<or> (28 \<le> n \<and> n \<le> 32))"

definition is_digit :: "char \<Rightarrow> bool" where
  "is_digit c = (let n = (of_char c :: nat) in 48 \<le> n \<and> n \<le> 57)"

definition digit_val :: "char \<Rightarrow> nat" where
  "digit_val c = of_char c - 48"

definition py_strip :: "string \<Rightarrow> string" where
  \<comment> \<open>\<^verbatim>\<open>s.strip()\<close>\<close>
  "py_strip s = rev (dropWhile is_space (rev (dropWhile is_space s)))"

fun parse_digits :: "nat \<Rightarrow> string \<Rightarrow> nat option" where
  \<comment> \<open>the digits after the first one; a single underscore may stand between two digits\<close>
  "parse_digits acc [] = Some acc"
| "parse_digits acc (c # cs) =
     (if is_digit c then parse_digits (10 * acc + digit_val c) cs
      else if c = CHR ''_'' then
        (case cs of
           [] \<Rightarrow> None
         | d # ds \<Rightarrow> if is_digit d then parse_digits (10 * acc + digit_val d) ds else None)
      else None)"

definition parse_unsigned :: "string \<Rightarrow> nat option" where
  "parse_unsigned s =
     (case s of
        [] \<Rightarrow> None
      | c # cs \<Rightarrow> if is_digit c then parse_digits (digit_val c) cs else None)"

definition py_int :: "string \<Rightarrow> int option" where
  \<comment> \<open>\<^verbatim>\<open>int(s)\<close> for a string in base 10; \<open>None\<close> is the ValueError\<close>
  "py_int s =
     (case py_strip s of
        [] \<Rightarrow> None
      | c # cs \<Rightarrow>
          if c = CHR ''-'' then map_option (\<lambda>n. - int n) (parse_unsigned cs)
          else if c = CHR ''+'' then map_option int (parse_unsigned cs)
          else map_option int (parse_unsigned (c # cs)))"

fun py_replace_from :: "string \<Rightarrow> string \<Rightarrow> nat \<Rightarrow> string \<Rightarrow> string" where
  \<comment> \<open>the counter is the number of characters of a match still to be skipped\<close>
  "py_replace_from old new k [] = []"
| "py_replace_from old new (Suc k) (c # cs) = py_replace_from old new k cs"
| "py_replace_from old new 0 (c # cs) =
     (if prefix old (c # cs) then new @ py_replace_from old new (length old - 1) cs
      else c # py_replace_from old new 0 cs)"

definition py_replace :: "string \<Rightarrow> string \<Rightarrow> string \<Rightarrow> string" where
  \<comment> \<open>\<^verbatim>\<open>s.replace(old, new)\<close>, every occurrence from the left; \<open>old\<close> is never empty in the source\<close>
  "py_replace old new s = py_replace_from old new 0 s"

fun py_split :: "char \<Rightarrow> string \<Rightarrow> string list" where
  \<comment> \<open>\<^verbatim>\<open>s.split(sep)\<close> for a one-character separator\<close>
  "py_split sep [] = [[]]"
| "py_split sep (c # cs) =
     (if c = sep then [] # py_split sep cs
      else (case py_split sep cs of
              [] \<Rightarrow> [[c]]
            | p # ps \<Rightarrow> (c # p) # ps))"

fun split1_snd :: "char \<Rightarrow> string \<Rightarrow> string option" where
  \<comment> \<open>\<^verbatim>\<open>s.split(sep, 1)[1]\<close>: what follows the first separator; \<open>None\<close> is the IndexError\<close>
  "split1_snd sep [] = None"
| "split1_snd sep (c # cs) = (if c = sep then Some cs else split1_snd sep cs)"

fun py_in :: "string \<Rightarrow> string \<Rightarrow> bool" where
  \<comment> \<open>\<^verbatim>\<open>sub in s\<close> for strings\<close>
  "py_in sub [] = (sub = [])"
| "py_in sub (c # cs) = (prefix sub (c # cs) \<or> py_in sub cs)"

definition upper_char :: "char \<Rightarrow> char" where
  "upper_char c =
     (case map_of (zip ''abcdefghijklmnopqrstuvwxyz'' ''ABCDEFGHIJKLMNOPQRSTUVWXYZ'') c of
        None \<Rightarrow> c
      | Some u \<Rightarrow> u)"

definition py_upper :: "string \<Rightarrow> string" where
  \<comment> \<open>\<^verbatim>\<open>s.upper()\<close>\<close>
  "py_upper s = map upper_char s"

subsection \<open>Data\<close>

datatype Conversation = IDLE | MAX_OPEN_TRADES | STAKE_AMOUNT | UPDATE_COINS

datatype ListType = STATIC | DYNAMIC

datatype ParseMode = MARKDOWN | HTML

text \<open>
  The entries of \<^verbatim>\<open>_CONF\<close> that the module reads or writes. The stake amount is a Python
  float; it is a real number here, so rounding and the special values of floats are not
  part of the model.
\<close>

record conf =
  telegram_enabled :: bool
  telegram_chat_id :: int
  max_open_trades :: int
  stake_amount :: real
  stake_currency :: string
  fiat_display_currency :: string
  pair_whitelist :: "string list"
  pair_blacklist :: "string list"

datatype conf_value = IntValue int | FloatValue real

text \<open>
  A message text is one of the module's format strings applied to its arguments; numbers
  are kept as numbers and tables as the rendering the external formatter gives them.
  \<open>Plain\<close> is a text passed on as it is, \<open>Pre\<close> a table between \<^verbatim>\<open><pre>\<close> tags,
  \<open>RequestInput title value\<close> the prompt of \<^verbatim>\<open>request_input\<close>, \<open>ViewConfig\<close> the summary of
  the branch view_config, \<open>ConfigMenu\<close> and \<open>SelectAction\<close> the captions of the two menus,
  \<open>CoinHelp\<close> the three lines of instructions of the pair editor, and \<open>Removed\<close>,
  \<open>Failure\<close> and \<open>Added\<close> those lines under a first line that names the coin and the list
  or the reason. \<open>InvalidNumber\<close> and \<open>InvalidAmount\<close> are the two texts that start with
  "I don't understand that", \<open>Success\<close> the acknowledgement of \<^verbatim>\<open>_process_config_update\<close>.
\<close>

datatype message =
    Plain string
  | Pre string
  | RequestInput string conf_value
  | ViewConfig int real string string string
  | ConfigMenu
  | SelectAction
  | CoinHelp
  | Removed string string
  | AlreadyRemoved string
  | AlreadyAdded string string
  | Failure string
  | Added string string
  | InvalidNumber
  | InvalidAmount
  | Success
  | DailyProfit int string
  | ProfitStats string string string
  | AllBalancesZero
  | Balance string
  | Performance string
  | CountTable nat int
  | Help
  | Version string

datatype button = InlineKeyboardButton string string

datatype reply_markup =
    ReplyKeyboardMarkup "string list list"
  | InlineKeyboardMarkup "button list list"

datatype call =
    SendMessage int message "ParseMode option" "reply_markup option"
  | EditMessageText message int int "ParseMode option" "reply_markup option"

datatype outcome = Delivered | NetworkFailure | HardFailure

datatype event = Transport call outcome | UpdateConfig conf

datatype exn = NetworkError | TelegramError | IndexError | AttributeError

datatype log_record =
    Rejected int
  | Executing string int
  | HandlerException exn
  | TryingOneMoreTime
  | GivingUp exn

text \<open>
  \<open>network\<close> holds the outcomes of the coming calls to the transport, one per call (a
  call beyond the end of the list succeeds); \<open>effects\<close> is the sequence of calls made to
  the transport and to \<^verbatim>\<open>update_config\<close>; \<open>logged\<close> is what the logger received.
\<close>

record world =
  CONF :: conf
  CONVERSATION :: Conversation
  UPDATED_COINS :: "string list"
  network :: "outcome list"
  effects :: "event list"
  logged :: "log_record list"

type_synonym action = "world \<Rightarrow> exn option \<times> world"

datatype update =
    CommandUpdate int string string
  | TextUpdate int string
  | CallbackUpdate int int string

text \<open>
  \<open>CommandUpdate chat command text\<close> and \<open>TextUpdate chat text\<close> are messages
  (\<^verbatim>\<open>update.message.chat_id\<close>, \<^verbatim>\<open>update.message.text\<close>); \<open>CallbackUpdate chat message_id data\<close>
  is a button press (\<^verbatim>\<open>update.callback_query\<close>, with the chat and the id of the message the
  button hangs on), for which \<^verbatim>\<open>update.message\<close> is None.
\<close>

fun message_chat_id :: "update \<Rightarrow> int option" where
  "message_chat_id (CommandUpdate chat cmd text) = Some chat"
| "message_chat_id (TextUpdate chat text) = Some chat"
| "message_chat_id (CallbackUpdate chat mid data) = None"

fun message_text :: "update \<Rightarrow> string option" where
  "message_text (CommandUpdate chat cmd text) = Some text"
| "message_text (TextUpdate chat text) = Some text"
| "message_text (CallbackUpdate chat mid data) = None"

fun sender :: "update \<Rightarrow> int" where
  "sender (CommandUpdate chat cmd text) = chat"
| "sender (TextUpdate chat text) = chat"
| "sender (CallbackUpdate chat mid data) = chat"

text \<open>
  What the module imports from \<^verbatim>\<open>freqtrade.rpc\<close>, \<^verbatim>\<open>freqtrade.exchange\<close> and
  \<^verbatim>\<open>freqtrade.misc\<close> is not among the sources at hand; these functions are parameters of the
  model, given as the values they return. An \<^verbatim>\<open>rpc_*\<close> function returns a pair of an error
  flag and a payload; where the payload is a message in both cases the pair is kept,
  otherwise \<open>Inl\<close> carries the error text and \<open>Inr\<close> the data. \<open>validate_pairs\<close> returns the
  text of the OperationalException it raises, if any; \<open>get_list_type\<close> is the value of
  \<^verbatim>\<open>get_list_type()\<close>. The record also carries \<^verbatim>\<open>float(s)\<close> as \<open>py_float\<close>, with \<open>None\<close> for
  the ValueError, and \<^verbatim>\<open>__version__\<close>.
\<close>

record backend =
  rpc_trade_status :: "string + string list"
  rpc_status_table :: "string + string"
  rpc_daily_profit :: "int \<Rightarrow> string \<Rightarrow> string \<Rightarrow> string + string"
  rpc_trade_statistics :: "string \<Rightarrow> string \<Rightarrow> string + string"
  rpc_balance :: "string \<Rightarrow> string + string"
  rpc_config :: "conf \<Rightarrow> string + string"
  rpc_start :: "bool \<times> string"
  rpc_stop :: "bool \<times> string"
  rpc_forcesell :: "string \<Rightarrow> bool \<times> string"
  rpc_performance :: "string + string"
  rpc_count :: "string + nat"
  validate_pairs :: "string list \<Rightarrow> string option"
  get_list_type :: ListType
  py_float :: "string \<Rightarrow> real option"
  version :: string

subsection \<open>Sequencing, logging, the transport\<close>

definition andthen :: "action \<Rightarrow> action \<Rightarrow> action" where
  \<comment> \<open>two statements in a row: the second runs only if the first did not raise\<close>
  "andthen f g w = (case f w of (None, w') \<Rightarrow> g w' | (Some e, w') \<Rightarrow> (Some e, w'))"

definition logger :: "log_record \<Rightarrow> world \<Rightarrow> world" where
  "logger r w = w\<lparr>logged := logged w @ [r]\<rparr>"

fun raised :: "outcome \<Rightarrow> exn option" where
  "raised Delivered = None"
| "raised NetworkFailure = Some NetworkError"
| "raised HardFailure = Some TelegramError"

fun is_TelegramError :: "exn \<Rightarrow> bool" where
  \<comment> \<open>NetworkError is a subclass of TelegramError\<close>
  "is_TelegramError NetworkError = True"
| "is_TelegramError TelegramError = True"
| "is_TelegramError IndexError = False"
| "is_TelegramError AttributeError = False"

definition next_outcome :: "outcome list \<Rightarrow> outcome" where
  \<comment> \<open>the outcome of the next call to the transport\<close>
  "next_outcome outs = (case outs of [] \<Rightarrow> Delivered | out # rest \<Rightarrow> out)"

definition bot_call :: "call \<Rightarrow> action" where
  \<comment> \<open>\<^verbatim>\<open>bot.send_message(...)\<close> or \<^verbatim>\<open>bot.edit_message_text(...)\<close>\<close>
  "bot_call c w =
     (let out = next_outcome (network w)
      in (raised out, w\<lparr>network := tl (network w), effects := effects w @ [Transport c out]\<rparr>))"

definition is_enabled :: "world \<Rightarrow> bool" where
  "is_enabled w = telegram_enabled (CONF w)"

definition keyboard :: "string list list" where
  "keyboard =
     [[''/daily'', ''/profit'', ''/balance'', ''/config''],
      [''/status'', ''/status table'', ''/performance''],
      [''/count'', ''/start'', ''/stop'', ''/help'']]"

definition give_up :: "exn \<Rightarrow> action" where
  \<comment> \<open>the clause \<^verbatim>\<open>except TelegramError\<close> of send_msg\<close>
  "give_up e w = (if is_TelegramError e then (None, logger (GivingUp e) w) else (Some e, w))"

definition send_msg :: "message \<Rightarrow> ParseMode \<Rightarrow> action" where
  "send_msg msg parse_mode w =
     (if \<not> is_enabled w then (None, w)
      else
        case bot_call (SendMessage (telegram_chat_id (CONF w)) msg (Some parse_mode)
                         (Some (ReplyKeyboardMarkup keyboard))) w of
          (None, w1) \<Rightarrow> (None, w1)
        | (Some network_err, w1) \<Rightarrow>
            if network_err = NetworkError then
              (case bot_call (SendMessage (telegram_chat_id (CONF w1)) msg (Some parse_mode)
                                (Some (ReplyKeyboardMarkup keyboard)))
                      (logger TryingOneMoreTime w1) of
                 (None, w2) \<Rightarrow> (None, w2)
               | (Some telegram_err, w2) \<Rightarrow> give_up telegram_err w2)
            else give_up network_err w1)"

fun send_each :: "string list \<Rightarrow> action" where
  \<comment> \<open>\<^verbatim>\<open>for trademsg in trades: send_msg(trademsg, bot=bot)\<close>\<close>
  "send_each [] w = (None, w)"
| "send_each (m # ms) w = andthen (send_msg (Plain m) MARKDOWN) (send_each ms) w"

function build_menu :: "'a list \<Rightarrow> nat \<Rightarrow> 'a list list" where
  \<comment> \<open>rows of \<open>n_cols\<close> buttons; the source calls it with 1, 2 or 3 columns only\<close>
  "build_menu buttons n_cols =
     (if buttons = [] \<or> n_cols = 0 then []
      else take n_cols buttons # build_menu (drop n_cols buttons) n_cols)"
  by pat_completeness auto
termination
  by (relation "measure (\<lambda>(buttons, n_cols). length buttons)") auto

declare build_menu.simps [simp del]

definition send_inline_keyboard_markup ::
  "button list \<Rightarrow> message \<Rightarrow> nat \<Rightarrow> (int \<times> int) option \<Rightarrow> action" where
  \<comment> \<open>the query, when given, is the chat id and the message id of \<^verbatim>\<open>query.message\<close>\<close>
  "send_inline_keyboard_markup button_list text n_cols edit_message_query w =
     (let reply_markup = InlineKeyboardMarkup (build_menu button_list n_cols)
      in case edit_message_query of
           None \<Rightarrow>
             bot_call (SendMessage (telegram_chat_id (CONF w)) text None
                         (Some reply_markup)) w
         | Some (qchat, qmid) \<Rightarrow>
             bot_call (EditMessageText text qchat qmid None (Some reply_markup)) w)"

subsection \<open>The authorization decorator\<close>

definition authorized_only :: "string \<Rightarrow> (update \<Rightarrow> action) \<Rightarrow> update \<Rightarrow> action" where
  \<comment> \<open>the first argument is \<^verbatim>\<open>command_handler.__name__\<close>\<close>
  "authorized_only name command_handler upd w =
     (case message_chat_id upd of
        None \<Rightarrow> (Some AttributeError, w)
      | Some chat \<Rightarrow>
          if chat \<noteq> telegram_chat_id (CONF w) then (None, logger (Rejected chat) w)
          else
            (case command_handler upd (logger (Executing name (telegram_chat_id (CONF w))) w) of
               (None, w') \<Rightarrow> (None, w')
             | (Some e, w') \<Rightarrow> (None, logger (HandlerException e) w')))"

definition with_text :: "update \<Rightarrow> (string \<Rightarrow> action) \<Rightarrow> action" where
  \<comment> \<open>reading \<^verbatim>\<open>update.message.text\<close>\<close>
  "with_text upd f w =
     (case message_text upd of
        None \<Rightarrow> (Some AttributeError, w)
      | Some text \<Rightarrow> f text w)"

subsection \<open>The conversation\<close>

definition list_name :: "backend \<Rightarrow> string" where
  \<comment> \<open>\<^verbatim>\<open>"Whitelist" if get_list_type() == ListType.STATIC else "Blacklist"\<close>\<close>
  "list_name B = (if get_list_type B = STATIC then ''Whitelist'' else ''Blacklist'')"

definition request_input :: "(conf \<Rightarrow> conf_value) \<Rightarrow> string \<Rightarrow> Conversation \<Rightarrow> action" where
  \<comment> \<open>the first argument reads \<^verbatim>\<open>_CONF[key]\<close>\<close>
  "request_input key title conv =
     andthen (\<lambda>w. send_msg (RequestInput title (key (CONF w))) HTML w)
             (\<lambda>w. (None, w\<lparr>CONVERSATION := conv\<rparr>))"

definition send_coins_for_deletion :: "message \<Rightarrow> (int \<times> int) option \<Rightarrow> action" where
  "send_coins_for_deletion message query w =
     (let w1 = w\<lparr>CONVERSATION := UPDATE_COINS\<rparr>;
          buttons_list = map (\<lambda>coin. InlineKeyboardButton coin (''x_'' @ coin)) (UPDATED_COINS w1)
      in send_inline_keyboard_markup buttons_list message 3 query w1)"

fun seed_coins :: "string list \<Rightarrow> action" where
  \<comment> \<open>the loop of the branch edit_pairs: an IndexError leaves the coins appended so far\<close>
  "seed_coins [] w = (None, w)"
| "seed_coins (pair # pairs) w =
     (case split1_snd CHR ''_'' pair of
        None \<Rightarrow> (Some IndexError, w)
      | Some coin \<Rightarrow> seed_coins pairs (w\<lparr>UPDATED_COINS := UPDATED_COINS w @ [coin]\<rparr>))"

fun callback :: "backend \<Rightarrow> update \<Rightarrow> action" where
  "callback B (CallbackUpdate qchat qmid callback_data) w =
     (if callback_data = ''view_config'' then
        (case rpc_config B (CONF w) of
           Inl df_pairs \<Rightarrow> send_msg (Plain df_pairs) MARKDOWN w
         | Inr df_pairs \<Rightarrow>
             bot_call
               (EditMessageText
                  (ViewConfig (max_open_trades (CONF w)) (stake_amount (CONF w))
                     (stake_currency (CONF w))
                     (if get_list_type B = STATIC then ''Whitelisted'' else ''Blacklisted'')
                     df_pairs)
                  qchat qmid (Some HTML) None) w)
      else if callback_data = ''edit_config'' then
        send_inline_keyboard_markup
          [InlineKeyboardButton ''Edit Max Open Trades'' ''edit_max_open_trades'',
           InlineKeyboardButton ''Edit Stake Amount'' ''edit_stake_amount'',
           InlineKeyboardButton (''Edit Pair '' @ list_name B) ''edit_pairs'']
          SelectAction 1 (Some (qchat, qmid)) w
      else if callback_data = ''edit_max_open_trades'' then
        request_input (\<lambda>c. IntValue (max_open_trades c)) ''max open trades'' MAX_OPEN_TRADES w
      else if callback_data = ''edit_stake_amount'' then
        request_input (\<lambda>c. FloatValue (stake_amount c)) ''stake amount'' STAKE_AMOUNT w
      else if callback_data = ''edit_pairs'' then
        andthen
          (seed_coins (if get_list_type B = STATIC then pair_whitelist (CONF w)
                       else pair_blacklist (CONF w)))
          (send_coins_for_deletion CoinHelp (Some (qchat, qmid))) w
      else if py_in ''x_'' callback_data then
        (case split1_snd CHR ''_'' callback_data of
           None \<Rightarrow> (Some IndexError, w)
         | Some coin \<Rightarrow>
             if coin \<in> set (UPDATED_COINS w) then
               send_coins_for_deletion (Removed (py_upper coin) (list_name B))
                 (Some (qchat, qmid)) (w\<lparr>UPDATED_COINS := remove1 coin (UPDATED_COINS w)\<rparr>)
             else send_msg (AlreadyRemoved (py_upper coin)) MARKDOWN w)
      else (None, w))"
| "callback B (CommandUpdate chat cmd text) w = (Some AttributeError, w)"
| "callback B (TextUpdate chat text) w = (Some AttributeError, w)"

text \<open>
  Modelled from the spec: \<^verbatim>\<open>update_config\<close> is defined in \<^verbatim>\<open>freqtrade.misc\<close>, which is not
  among the sources at hand. The spec has it as the persistence collaborator, which is
  handed the changed configuration synchronously, before the success reply; the model
  records the call with the configuration it is given, and the call does not raise.
\<close>

definition update_config :: action where
  "update_config w = (None, w\<lparr>effects := effects w @ [UpdateConfig (CONF w)]\<rparr>)"

definition process_config_update :: action where
  "process_config_update =
     andthen update_config
       (andthen (send_msg Success MARKDOWN)
          (\<lambda>w. (None, w\<lparr>CONVERSATION := IDLE\<rparr>)))"

definition set_pair_list :: "backend \<Rightarrow> string list \<Rightarrow> conf \<Rightarrow> conf" where
  \<comment> \<open>\<^verbatim>\<open>_CONF['exchange'][list_to_update] = new_list\<close>\<close>
  "set_pair_list B new_list c =
     (if get_list_type B = STATIC then c\<lparr>pair_whitelist := new_list\<rparr>
      else c\<lparr>pair_blacklist := new_list\<rparr>)"

definition handle_coin_updation :: "backend \<Rightarrow> update \<Rightarrow> action" where
  "handle_coin_updation B upd =
     with_text upd (\<lambda>user_text w.
       let stake = stake_currency (CONF w) in
       if py_upper user_text = ''DONE'' then
         (let new_list = map (\<lambda>coin. stake @ ''_'' @ coin) (UPDATED_COINS w)
          in andthen process_config_update (\<lambda>w'. (None, w'\<lparr>UPDATED_COINS := []\<rparr>))
               (w\<lparr>CONF := set_pair_list B new_list (CONF w)\<rparr>))
       else
         (let coin = py_upper user_text in
          if coin \<in> set (UPDATED_COINS w) then
            send_msg (AlreadyAdded coin (list_name B)) MARKDOWN w
          else
            (case validate_pairs B [stake @ ''_'' @ coin] of
               Some e \<Rightarrow> send_coins_for_deletion (Failure e) None w
             | None \<Rightarrow>
                 send_coins_for_deletion (Added (py_upper coin) (list_name B)) None
                   (w\<lparr>UPDATED_COINS := UPDATED_COINS w @ [coin]\<rparr>))))"

definition message_handler :: "backend \<Rightarrow> update \<Rightarrow> action" where
  "message_handler B upd w =
     (if CONVERSATION w = MAX_OPEN_TRADES then
        with_text upd (\<lambda>text w.
          case py_int text of
            None \<Rightarrow> send_msg InvalidNumber MARKDOWN w
          | Some new_max_open_trades \<Rightarrow>
              process_config_update
                (w\<lparr>CONF := (CONF w)\<lparr>max_open_trades := new_max_open_trades\<rparr>\<rparr>)) w
      else if CONVERSATION w = STAKE_AMOUNT then
        with_text upd (\<lambda>text w.
          case py_float B text of
            None \<Rightarrow> send_msg InvalidAmount MARKDOWN w
          | Some new_stake_amount \<Rightarrow>
              process_config_update
                (w\<lparr>CONF := (CONF w)\<lparr>stake_amount := new_stake_amount\<rparr>\<rparr>)) w
      else if CONVERSATION w = UPDATE_COINS then handle_coin_updation B upd w
      else (None, w))"

subsection \<open>The commands\<close>

definition status_table_handler :: "backend \<Rightarrow> update \<Rightarrow> action" where
  "status_table_handler B upd =
     (case rpc_status_table B of
        Inl df_statuses \<Rightarrow> send_msg (Plain df_statuses) MARKDOWN
      | Inr df_statuses \<Rightarrow> send_msg (Pre df_statuses) HTML)"

definition status_table_command :: "backend \<Rightarrow> update \<Rightarrow> action" where
  "status_table_command B = authorized_only ''_status_table'' (status_table_handler B)"

definition status_handler :: "backend \<Rightarrow> update \<Rightarrow> action" where
  "status_handler B upd =
     with_text upd (\<lambda>text.
       let params = (if text \<noteq> [] then py_split CHR '' '' (py_replace ''/status'' [] text)
                     else [])
       in if ''table'' \<in> set params then status_table_command B upd
          else (case rpc_trade_status B of
                  Inl trades \<Rightarrow> send_msg (Plain trades) MARKDOWN
                | Inr trades \<Rightarrow> send_each trades))"

definition config_handler :: "backend \<Rightarrow> update \<Rightarrow> action" where
  "config_handler B upd =
     send_inline_keyboard_markup
       [InlineKeyboardButton ''View config'' ''view_config'',
        InlineKeyboardButton ''Edit config'' ''edit_config'']
       ConfigMenu 2 None"

definition daily_timescale :: "string \<Rightarrow> int" where
  \<comment> \<open>the \<^verbatim>\<open>try\<close> block at the head of the handler of /daily\<close>
  "daily_timescale text =
     (case py_int (py_strip (py_replace ''/daily'' [] text)) of
        Some timescale \<Rightarrow> timescale
      | None \<Rightarrow> 7)"

definition daily_handler :: "backend \<Rightarrow> update \<Rightarrow> action" where
  "daily_handler B upd =
     with_text upd (\<lambda>text w.
       let timescale = daily_timescale text in
       case rpc_daily_profit B timescale (stake_currency (CONF w))
              (fiat_display_currency (CONF w)) of
         Inl stats \<Rightarrow> send_msg (Plain stats) MARKDOWN w
       | Inr stats \<Rightarrow> send_msg (DailyProfit timescale stats) HTML w)"

definition profit_handler :: "backend \<Rightarrow> update \<Rightarrow> action" where
  "profit_handler B upd w =
     (case rpc_trade_statistics B (stake_currency (CONF w)) (fiat_display_currency (CONF w)) of
        Inl stats \<Rightarrow> send_msg (Plain stats) MARKDOWN w
      | Inr stats \<Rightarrow>
          send_msg (ProfitStats (stake_currency (CONF w)) (fiat_display_currency (CONF w)) stats)
            MARKDOWN w)"

definition balance_handler :: "backend \<Rightarrow> update \<Rightarrow> action" where
  "balance_handler B upd w =
     (case rpc_balance B (fiat_display_currency (CONF w)) of
        Inl result \<Rightarrow> send_msg AllBalancesZero MARKDOWN w
      | Inr result \<Rightarrow> send_msg (Balance result) MARKDOWN w)"

definition start_handler :: "backend \<Rightarrow> update \<Rightarrow> action" where
  "start_handler B upd w =
     (case rpc_start B of
        (error, msg) \<Rightarrow> if error then send_msg (Plain msg) MARKDOWN w else (None, w))"

definition stop_handler :: "backend \<Rightarrow> update \<Rightarrow> action" where
  "stop_handler B upd w =
     (case rpc_stop B of (error, msg) \<Rightarrow> send_msg (Plain msg) MARKDOWN w)"

definition forcesell_handler :: "backend \<Rightarrow> update \<Rightarrow> action" where
  "forcesell_handler B upd =
     with_text upd (\<lambda>text w.
       let trade_id = py_strip (py_replace ''/forcesell'' [] text) in
       case rpc_forcesell B trade_id of
         (error, message) \<Rightarrow> if error then send_msg (Plain message) MARKDOWN w else (None, w))"

definition performance_handler :: "backend \<Rightarrow> update \<Rightarrow> action" where
  "performance_handler B upd =
     (case rpc_performance B of
        Inl trades \<Rightarrow> send_msg (Plain trades) MARKDOWN
      | Inr trades \<Rightarrow> send_msg (Performance trades) HTML)"

definition count_handler :: "backend \<Rightarrow> update \<Rightarrow> action" where
  "count_handler B upd w =
     (case rpc_count B of
        Inl trades \<Rightarrow> send_msg (Plain trades) MARKDOWN w
      | Inr trades \<Rightarrow> send_msg (CountTable trades (max_open_trades (CONF w))) HTML w)"

definition help_handler :: "backend \<Rightarrow> update \<Rightarrow> action" where
  "help_handler B upd = send_msg Help MARKDOWN"

definition version_handler :: "backend \<Rightarrow> update \<Rightarrow> action" where
  "version_handler B upd = send_msg (Version (version B)) MARKDOWN"

definition status_command :: "backend \<Rightarrow> update \<Rightarrow> action" where
  "status_command B = authorized_only ''_status'' (status_handler B)"

definition profit_command :: "backend \<Rightarrow> update \<Rightarrow> action" where
  "profit_command B = authorized_only ''_profit'' (profit_handler B)"

definition balance_command :: "backend \<Rightarrow> update \<Rightarrow> action" where
  "balance_command B = authorized_only ''_balance'' (balance_handler B)"

definition start_command :: "backend \<Rightarrow> update \<Rightarrow> action" where
  "start_command B = authorized_only ''_start'' (start_handler B)"

definition stop_command :: "backend \<Rightarrow> update \<Rightarrow> action" where
  "stop_command B = authorized_only ''_stop'' (stop_handler B)"

definition forcesell_command :: "backend \<Rightarrow> update \<Rightarrow> action" where
  "forcesell_command B = authorized_only ''_forcesell'' (forcesell_handler B)"

definition performance_command :: "backend \<Rightarrow> update \<Rightarrow> action" where
  "performance_command B = authorized_only ''_performance'' (performance_handler B)"

definition daily_command :: "backend \<Rightarrow> update \<Rightarrow> action" where
  "daily_command B = authorized_only ''_daily'' (daily_handler B)"

definition count_command :: "backend \<Rightarrow> update \<Rightarrow> action" where
  "count_command B = authorized_only ''_count'' (count_handler B)"

definition config_command :: "backend \<Rightarrow> update \<Rightarrow> action" where
  "config_command B = authorized_only ''_config'' (config_handler B)"

definition help_command :: "backend \<Rightarrow> update \<Rightarrow> action" where
  "help_command B = authorized_only ''_help'' (help_handler B)"

definition version_command :: "backend \<Rightarrow> update \<Rightarrow> action" where
  "version_command B = authorized_only ''_version'' (version_handler B)"

subsection \<open>Registration and routing\<close>

definition handles :: "backend \<Rightarrow> (string \<times> (update \<Rightarrow> action)) list" where
  \<comment> \<open>the list \<^verbatim>\<open>handles\<close> of \<^verbatim>\<open>init\<close>\<close>
  "handles B =
     [(''status'', status_command B),
      (''profit'', profit_command B),
      (''balance'', balance_command B),
      (''start'', start_command B),
      (''stop'', stop_command B),
      (''forcesell'', forcesell_command B),
      (''performance'', performance_command B),
      (''daily'', daily_command B),
      (''count'', count_command B),
      (''config'', config_command B),
      (''help'', help_command B),
      (''version'', version_command B)]"

text \<open>
  \<^verbatim>\<open>init\<close> registers the entries of \<open>handles\<close> as command handlers, \<^verbatim>\<open>_callback\<close> as the
  handler of callback queries and \<^verbatim>\<open>_message_handler\<close> as the handler of text messages, with
  the dispatcher of the chat library. \<open>dispatch\<close> is the routing that these registrations
  ask for: a command goes to the handler registered under its word (and nowhere if there is
  none), a button press to \<^verbatim>\<open>_callback\<close>, any other text to \<^verbatim>\<open>_message_handler\<close>. What
  \<open>dispatch\<close> returns is what the dispatcher receives from the handler.
\<close>

fun dispatch :: "backend \<Rightarrow> update \<Rightarrow> action" where
  "dispatch B (CommandUpdate chat cmd text) w =
     (case map_of (handles B) cmd of
        None \<Rightarrow> (None, w)
      | Some handler \<Rightarrow> handler (CommandUpdate chat cmd text) w)"
| "dispatch B (CallbackUpdate chat mid callback_data) w =
     callback B (CallbackUpdate chat mid callback_data) w"
| "dispatch B (TextUpdate chat text) w = message_handler B (TextUpdate chat text) w"

fun run :: "backend \<Rightarrow> update list \<Rightarrow> world \<Rightarrow> world" where
  \<comment> \<open>updates are handled one at a time, in the order of arrival\<close>
  "run B [] w = w"
| "run B (upd # upds) w = run B upds (snd (dispatch B upd w))"

subsection \<open>Reading the effects\<close>

fun calls_of :: "event list \<Rightarrow> call list" where
  \<comment> \<open>the calls made to the transport, in order\<close>
  "calls_of [] = []"
| "calls_of (Transport c out # es) = c # calls_of es"
| "calls_of (UpdateConfig c # es) = calls_of es"

definition send_call :: "world \<Rightarrow> message \<Rightarrow> ParseMode \<Rightarrow> call" where
  \<comment> \<open>the call by which send_msg delivers a message\<close>
  "send_call w msg parse_mode =
     SendMessage (telegram_chat_id (CONF w)) msg (Some parse_mode)
       (Some (ReplyKeyboardMarkup keyboard))"

subsection \<open>A configuration, a state and a backend to run the module on\<close>

definition example_conf :: conf where
  "example_conf =
     \<lparr>telegram_enabled = True, telegram_chat_id = 123, max_open_trades = 3,
      stake_amount = 1 / 100, stake_currency = ''BTC'', fiat_display_currency = ''USD'',
      pair_whitelist = [''BTC_ETH'', ''BTC_LTC''], pair_blacklist = []\<rparr>"

definition example_world :: world where
  "example_world =
     \<lparr>CONF = example_conf, CONVERSATION = IDLE, UPDATED_COINS = [], network = [],
      effects = [], logged = []\<rparr>"

definition example_backend :: backend where
  "example_backend =
     \<lparr>rpc_trade_status = Inl ''no active trade'',
      rpc_status_table = Inl ''no active order found'',
      rpc_daily_profit = (\<lambda>timescale stake fiat. Inl ''*Daily [n]:* `must be an integer greater than 0`''),
      rpc_trade_statistics = (\<lambda>stake fiat. Inl ''no closed trade''),
      rpc_balance = (\<lambda>fiat. Inl ''`All balances are zero.`''),
      rpc_config = (\<lambda>c. Inl ''no pairs''),
      rpc_start = (True, ''*Status:* `already running`''),
      rpc_stop = (False, ''`Stopping trader ...`''),
      rpc_forcesell = (\<lambda>trade_id. (trade_id \<noteq> ''all'', ''Invalid argument.'')),
      rpc_performance = Inl ''`trader is not running`'',
      rpc_count = Inr 0,
      validate_pairs = (\<lambda>pairs. None),
      get_list_type = STATIC,
      py_float = map_of [(''0.5'', 1 / 2), (''-0.5'', - 1 / 2)],
      version = ''0.14.3''\<rparr>"

definition committed_pairs :: "backend \<Rightarrow> world \<Rightarrow> string list" where
  \<comment> \<open>the pair list that the editor works on: the whitelist in static mode, else the blacklist\<close>
  "committed_pairs B w =
     (if get_list_type B = STATIC then pair_whitelist (CONF w) else pair_blacklist (CONF w))"

section \<open>Facts about the model\<close>

subsection \<open>Delivery\<close>

lemma logger_fields:
  "CONF (logger r w) = CONF w" "CONVERSATION (logger r w) = CONVERSATION w"
  "UPDATED_COINS (logger r w) = UPDATED_COINS w" "network (logger r w) = network w"
  "effects (logger r w) = effects w" "logged (logger r w) = logged w @ [r]"
  "is_enabled (logger r w) = is_enabled w"
  by (simp_all add: logger_def is_enabled_def)

lemma send_msg_fst: "fst (send_msg msg pm w) = None"
  by (cases "next_outcome (network w)"; cases "next_outcome (tl (network w))";
      simp add: send_msg_def bot_call_def give_up_def logger_def Let_def)

lemma send_msg_session:
  "CONF (snd (send_msg msg pm w)) = CONF w"
  "CONVERSATION (snd (send_msg msg pm w)) = CONVERSATION w"
  "UPDATED_COINS (snd (send_msg msg pm w)) = UPDATED_COINS w"
  by (cases "next_outcome (network w)"; cases "next_outcome (tl (network w))";
      simp add: send_msg_def bot_call_def give_up_def logger_def Let_def)+

lemma send_msg_effects:
  "is_enabled w \<Longrightarrow>
   effects (snd (send_msg msg pm w)) =
     effects w @
       (if next_outcome (network w) = NetworkFailure
        then [Transport (send_call w msg pm) NetworkFailure,
              Transport (send_call w msg pm) (next_outcome (tl (network w)))]
        else [Transport (send_call w msg pm) (next_outcome (network w))])"
  by (cases "next_outcome (network w)"; cases "next_outcome (tl (network w))";
      simp add: send_msg_def bot_call_def give_up_def logger_def Let_def send_call_def)

lemma send_msg_logged:
  "is_enabled w \<Longrightarrow>
   logged (snd (send_msg msg pm w)) =
     logged w @
       (if next_outcome (network w) = NetworkFailure
        then TryingOneMoreTime #
               (case raised (next_outcome (tl (network w))) of
                  None \<Rightarrow> []
                | Some e \<Rightarrow> [GivingUp e])
        else (case raised (next_outcome (network w)) of
                None \<Rightarrow> []
              | Some e \<Rightarrow> [GivingUp e]))"
  by (cases "next_outcome (network w)"; cases "next_outcome (tl (network w))";
      simp add: send_msg_def bot_call_def give_up_def logger_def Let_def)


lemma calls_of_append: "calls_of (es @ es') = calls_of es @ calls_of es'"
  by (induction es rule: calls_of.induct) simp_all

lemma send_msg_calls:
  "is_enabled w \<Longrightarrow>
   calls_of (effects (snd (send_msg msg pm w))) \<noteq> calls_of (effects w)"
  by (simp add: send_msg_effects calls_of_append)

subsection \<open>Sequencing\<close>

lemma andthen_send_msg: "andthen (send_msg msg pm) g w = g (snd (send_msg msg pm w))"
  using send_msg_fst [of msg pm w] by (cases "send_msg msg pm w") (simp add: andthen_def)

lemma andthen_update_config:
  "andthen update_config g w = g (w\<lparr>effects := effects w @ [UpdateConfig (CONF w)]\<rparr>)"
  by (simp add: andthen_def update_config_def)

lemma process_config_update_eq:
  "process_config_update w =
     (None, (snd (send_msg Success MARKDOWN (w\<lparr>effects := effects w @ [UpdateConfig (CONF w)]\<rparr>)))
              \<lparr>CONVERSATION := IDLE\<rparr>)"
  by (simp add: process_config_update_def andthen_update_config andthen_send_msg)

lemma request_input_eq:
  "request_input key title conv w =
     (None, (snd (send_msg (RequestInput title (key (CONF w))) HTML w))\<lparr>CONVERSATION := conv\<rparr>)"
  using send_msg_fst [of "RequestInput title (key (CONF w))" HTML w]
  by (cases "send_msg (RequestInput title (key (CONF w))) HTML w")
     (simp add: request_input_def andthen_def)

lemma run_append: "run B (upds @ upds') w = run B upds' (run B upds w)"
  by (induction upds arbitrary: w) simp_all

subsection \<open>Free text in a conversation\<close>

lemma done_result:
  "CONVERSATION w = UPDATE_COINS \<Longrightarrow> py_upper text = ''DONE'' \<Longrightarrow>
   message_handler B (TextUpdate chat text) w =
     (None,
      (snd (send_msg Success MARKDOWN
              (w\<lparr>CONF := set_pair_list B
                            (map (\<lambda>coin. stake_currency (CONF w) @ ''_'' @ coin) (UPDATED_COINS w))
                            (CONF w),
                 effects := effects w @
                   [UpdateConfig
                      (set_pair_list B
                         (map (\<lambda>coin. stake_currency (CONF w) @ ''_'' @ coin) (UPDATED_COINS w))
                         (CONF w))]\<rparr>)))
        \<lparr>CONVERSATION := IDLE, UPDATED_COINS := []\<rparr>)"
  by (simp add: message_handler_def handle_coin_updation_def with_text_def Let_def
        process_config_update_eq andthen_def)





subsection \<open>The decorator on the commands\<close>

lemmas command_defs =
  status_command_def profit_command_def balance_command_def start_command_def
  stop_command_def forcesell_command_def performance_command_def daily_command_def
  count_command_def config_command_def help_command_def version_command_def

lemma authorized_only_rejects:
  "chat \<noteq> telegram_chat_id (CONF w) \<Longrightarrow>
   authorized_only name h (CommandUpdate chat cmd text) w = (None, logger (Rejected chat) w)"
  by (simp add: authorized_only_def)

lemma authorized_only_fst: "fst (authorized_only name h (CommandUpdate chat cmd text) w) = None"
  by (simp add: authorized_only_def split: prod.split option.split)

lemma authorized_only_accepts:
  "authorized_only name h (CommandUpdate (telegram_chat_id (CONF w)) cmd text) w =
     (case h (CommandUpdate (telegram_chat_id (CONF w)) cmd text)
             (logger (Executing name (telegram_chat_id (CONF w))) w) of
        (None, w') \<Rightarrow> (None, w')
      | (Some e, w') \<Rightarrow> (None, logger (HandlerException e) w'))"
  by (simp add: authorized_only_def)

lemma gate_of_send:
  "(case send_msg msg pm w of
      (None, w') \<Rightarrow> (None, w')
    | (Some e, w') \<Rightarrow> (None, logger (HandlerException e) w')) = send_msg msg pm w"
  using send_msg_fst [of msg pm w] by (cases "send_msg msg pm w") simp

text \<open>
  A command from a chat other than the configured one changes nothing but the log, and no
  command lets an exception through: every entry of \<open>handles\<close> is a decorated handler.
\<close>

lemma command_from_stranger:
  "chat \<noteq> telegram_chat_id (CONF w) \<Longrightarrow>
   dispatch B (CommandUpdate chat cmd text) w = (None, w) \<or>
   dispatch B (CommandUpdate chat cmd text) w = (None, logger (Rejected chat) w)"
  by (simp add: handles_def command_defs authorized_only_rejects)

lemma command_never_raises: "fst (dispatch B (CommandUpdate chat cmd text) w) = None"
  by (simp add: handles_def command_defs authorized_only_fst)

lemma start_result:
  "dispatch B (CommandUpdate (telegram_chat_id (CONF w)) ''start'' text) w =
     (if fst (rpc_start B)
      then send_msg (Plain (snd (rpc_start B))) MARKDOWN
             (logger (Executing ''_start'' (telegram_chat_id (CONF w))) w)
      else (None, logger (Executing ''_start'' (telegram_chat_id (CONF w))) w))"
  by (cases "rpc_start B")
     (simp add: handles_def start_command_def authorized_only_accepts start_handler_def
        gate_of_send)

lemma forcesell_result:
  "dispatch B (CommandUpdate (telegram_chat_id (CONF w)) ''forcesell'' text) w =
     (if fst (rpc_forcesell B (py_strip (py_replace ''/forcesell'' [] text)))
      then send_msg (Plain (snd (rpc_forcesell B (py_strip (py_replace ''/forcesell'' [] text)))))
             MARKDOWN (logger (Executing ''_forcesell'' (telegram_chat_id (CONF w))) w)
      else (None, logger (Executing ''_forcesell'' (telegram_chat_id (CONF w))) w))"
  by (cases "rpc_forcesell B (py_strip (py_replace ''/forcesell'' [] text))")
     (simp add: handles_def forcesell_command_def authorized_only_accepts forcesell_handler_def
        with_text_def gate_of_send Let_def)

subsection \<open>The working pair list and the buttons\<close>

lemma send_coins_coins:
  "UPDATED_COINS (snd (send_coins_for_deletion m q w)) = UPDATED_COINS w"
  by (cases q)
     (auto simp: send_coins_for_deletion_def send_inline_keyboard_markup_def bot_call_def Let_def)

lemma text_keeps_distinct:
  "distinct (UPDATED_COINS w) \<Longrightarrow>
   distinct (UPDATED_COINS (snd (message_handler B (TextUpdate chat text) w)))"
  by (auto simp: message_handler_def with_text_def handle_coin_updation_def Let_def
        process_config_update_eq send_msg_session send_coins_coins andthen_def
        split: option.splits)

lemma button_keeps_distinct:
  "callback_data \<noteq> ''edit_pairs'' \<Longrightarrow> distinct (UPDATED_COINS w) \<Longrightarrow>
   distinct (UPDATED_COINS (snd (callback B (CallbackUpdate chat mid callback_data) w)))"
  by (auto simp: send_msg_session send_coins_coins request_input_eq
        send_inline_keyboard_markup_def bot_call_def Let_def
        split: sum.splits option.splits)

lemma remove_pair_prefix:
  "py_in ''x_'' (''x_'' @ symbol) \<and> split1_snd CHR ''_'' (''x_'' @ symbol) = Some symbol"
  by simp

lemma unrecognized_payload_ignored:
  "callback_data \<notin> {''view_config'', ''edit_config'', ''edit_max_open_trades'',
                       ''edit_stake_amount'', ''edit_pairs''} \<Longrightarrow>
   \<not> py_in ''x_'' callback_data \<Longrightarrow>
   dispatch B (CallbackUpdate chat mid callback_data) w = (None, w)"
  by simp

subsection \<open>Strings\<close>







subsection \<open>Evaluation\<close>

lemmas eval_strings =
  py_int_def py_strip_def py_replace_def is_space_def is_digit_def digit_val_def
  parse_unsigned_def py_upper_def upper_char_def

lemmas eval_model =
  send_msg_def bot_call_def give_up_def logger_def is_enabled_def next_outcome_def andthen_def
  with_text_def request_input_def send_coins_for_deletion_def send_inline_keyboard_markup_def
  process_config_update_def update_config_def set_pair_list_def handle_coin_updation_def
  message_handler_def
  list_name_def authorized_only_def example_world_def example_conf_def example_backend_def
  Let_def

section \<open>Properties of the module\<close>

subsection \<open>C1: events from another chat\<close>

text \<open>
  C1. An event whose sender is not the configured chat is dropped, whatever its kind: no
  reply, no change of \<open>CONVERSATION\<close>, \<open>UPDATED_COINS\<close> or \<open>CONF\<close>.

  The module decorates the twelve commands and \<^verbatim>\<open>_status_table\<close> with \<^verbatim>\<open>authorized_only\<close>
  (\<open>command_from_stranger\<close> above), but neither \<^verbatim>\<open>_callback\<close> nor \<^verbatim>\<open>_message_handler\<close>. With
  123 as the configured chat, a button press from chat 999 opens the dialog for the maximum
  of open trades and is answered with the prompt, and the number that chat 999 sends next
  is written into the configuration.
\<close>

theorem stranger_reaches_ungated_handlers:
  "sender (CallbackUpdate 999 7 ''edit_max_open_trades'') \<noteq> telegram_chat_id (CONF example_world) \<and>
   CONVERSATION (snd (dispatch example_backend (CallbackUpdate 999 7 ''edit_max_open_trades'')
                        example_world)) = MAX_OPEN_TRADES \<and>
   calls_of (effects (snd (dispatch example_backend
                             (CallbackUpdate 999 7 ''edit_max_open_trades'') example_world))) =
     [SendMessage 123 (RequestInput ''max open trades'' (IntValue 3)) (Some HTML)
        (Some (ReplyKeyboardMarkup keyboard))] \<and>
   max_open_trades
     (CONF (run example_backend
              [CallbackUpdate 999 7 ''edit_max_open_trades'', TextUpdate 999 ''50'']
              example_world)) = 50"
  by (simp add: eval_model eval_strings)

subsection \<open>C2: duplicates in the working pair list\<close>

text \<open>
  C2. \<open>UPDATED_COINS\<close> holds no symbol twice, after any sequence of operations.

  Free text and the buttons other than edit_pairs keep the list free of duplicates
  (\<open>text_keeps_distinct\<close> and \<open>button_keeps_distinct\<close> above): an addition is refused
  when the coin is in the list, and a removal takes one occurrence out. The branch
  edit_pairs appends the configured pairs to the list without emptying it first, so
  pressing that button twice before "done" leaves every coin twice.
\<close>

theorem edit_pairs_twice_duplicates:
  "UPDATED_COINS (run example_backend
                    [CallbackUpdate 123 7 ''edit_pairs'', CallbackUpdate 123 8 ''edit_pairs'']
                    example_world) = [''ETH'', ''LTC'', ''ETH'', ''LTC''] \<and>
   \<not> distinct (UPDATED_COINS (run example_backend
                    [CallbackUpdate 123 7 ''edit_pairs'', CallbackUpdate 123 8 ''edit_pairs'']
                    example_world))"
  by (simp add: eval_model eval_strings)

subsection \<open>C3: exceptions raised in a handler\<close>

text \<open>
  C3. An exception raised in a handler, be it of a command, of the buttons or of free text,
  is caught and logged by the decorator and never reaches the dispatcher.

  This holds for the commands (\<open>command_never_raises\<close> above). \<^verbatim>\<open>_callback\<close> and
  \<^verbatim>\<open>_message_handler\<close> are not decorated, and both call the bot outside \<^verbatim>\<open>send_msg\<close>, through
  \<^verbatim>\<open>_send_inline_keyboard_markup\<close>: when the transport fails there, the exception leaves the
  handler. The same failure under /config, which is decorated, is caught.
\<close>

theorem ungated_handler_fault_propagates:
  "fst (dispatch example_backend (CallbackUpdate 123 7 ''edit_config'')
          (example_world\<lparr>network := [NetworkFailure]\<rparr>)) = Some NetworkError \<and>
   fst (dispatch example_backend (TextUpdate 123 ''xrp'')
          (example_world\<lparr>CONVERSATION := UPDATE_COINS, network := [HardFailure]\<rparr>)) =
     Some TelegramError \<and>
   fst (dispatch example_backend (CommandUpdate 123 ''config'' ''/config'')
          (example_world\<lparr>network := [NetworkFailure]\<rparr>)) = None"
  by (simp add: eval_model eval_strings handles_def command_defs config_handler_def)

subsection \<open>C4: the payload of a remove button\<close>

text \<open>
  C4. A payload that is none of the five fixed tokens removes a pair if and only if it
  starts with \<^verbatim>\<open>x_\<close>, the symbol being the rest; any other payload is ignored.

  A payload \<^verbatim>\<open>x_\<close> followed by a symbol is the removal of that symbol, and a payload
  without \<^verbatim>\<open>x_\<close> in it is ignored (\<open>remove_pair_prefix\<close> and
  \<open>unrecognized_payload_ignored\<close> above). The test of the source is
  \<^verbatim>\<open>"x_" in callback_data\<close>, though, and the symbol is what follows the first underscore:
  the payload \<^verbatim>\<open>fox_ETH\<close> does not start with \<^verbatim>\<open>x_\<close> and removes ETH.
\<close>

theorem remove_pair_matches_inside_payload:
  "\<not> prefix ''x_'' ''fox_ETH'' \<and>
   UPDATED_COINS
     (snd (dispatch example_backend (CallbackUpdate 123 7 ''fox_ETH'')
             (example_world\<lparr>CONVERSATION := UPDATE_COINS,
                              UPDATED_COINS := [''ETH'', ''LTC'']\<rparr>))) = [''LTC'']"
  by (simp add: eval_model eval_strings)

subsection \<open>C5: "done" commits the working pairs\<close>

text \<open>
  C5. After any sequence of updates that leaves the conversation in \<open>UPDATE_COINS\<close>, a free
  text that is "done" in any letter case writes into the pair list being edited the stake
  currency, an underscore and the symbol, for each symbol of \<open>UPDATED_COINS\<close> in its order;
  afterwards \<open>UPDATED_COINS\<close> is empty and the conversation is \<open>IDLE\<close>. The handler raises
  nothing on the way.
\<close>

theorem done_commits_working_pairs:
  assumes "CONVERSATION (run B upds w0) = UPDATE_COINS" and "py_upper text = ''DONE''"
  shows "committed_pairs B (run B (upds @ [TextUpdate chat text]) w0) =
           map (\<lambda>symbol. stake_currency (CONF (run B upds w0)) @ ''_'' @ symbol)
             (UPDATED_COINS (run B upds w0)) \<and>
         UPDATED_COINS (run B (upds @ [TextUpdate chat text]) w0) = [] \<and>
         CONVERSATION (run B (upds @ [TextUpdate chat text]) w0) = IDLE \<and>
         fst (dispatch B (TextUpdate chat text) (run B upds w0)) = None"
  using assms
  by (simp add: run_append done_result send_msg_session committed_pairs_def set_pair_list_def)

theorem done_commits_working_pairs_witness:
  "CONVERSATION (run example_backend
                   [CallbackUpdate 123 7 ''edit_pairs'', TextUpdate 123 ''xrp'',
                    CallbackUpdate 123 8 ''x_LTC''] example_world) = UPDATE_COINS \<and>
   py_upper ''DoNe'' = ''DONE'' \<and>
   committed_pairs example_backend
     (run example_backend
        ([CallbackUpdate 123 7 ''edit_pairs'', TextUpdate 123 ''xrp'',
          CallbackUpdate 123 8 ''x_LTC''] @ [TextUpdate 123 ''DoNe'']) example_world) =
     [''BTC_ETH'', ''BTC_XRP''] \<and>
   UPDATED_COINS
     (run example_backend
        ([CallbackUpdate 123 7 ''edit_pairs'', TextUpdate 123 ''xrp'',
          CallbackUpdate 123 8 ''x_LTC''] @ [TextUpdate 123 ''DoNe'']) example_world) = [] \<and>
   CONVERSATION
     (run example_backend
        ([CallbackUpdate 123 7 ''edit_pairs'', TextUpdate 123 ''xrp'',
          CallbackUpdate 123 8 ''x_LTC''] @ [TextUpdate 123 ''DoNe'']) example_world) = IDLE"
proof -
  have h1: "CONVERSATION (run example_backend
                   [CallbackUpdate 123 7 ''edit_pairs'', TextUpdate 123 ''xrp'',
                    CallbackUpdate 123 8 ''x_LTC''] example_world) = UPDATE_COINS"
    by (simp add: eval_model eval_strings)
  have h2: "py_upper ''DoNe'' = ''DONE''"
    by (simp add: eval_strings)
  have h3: "UPDATED_COINS (run example_backend
                   [CallbackUpdate 123 7 ''edit_pairs'', TextUpdate 123 ''xrp'',
                    CallbackUpdate 123 8 ''x_LTC''] example_world) = [''ETH'', ''XRP'']"
    by (simp add: eval_model eval_strings)
  have h4: "stake_currency (CONF (run example_backend
                   [CallbackUpdate 123 7 ''edit_pairs'', TextUpdate 123 ''xrp'',
                    CallbackUpdate 123 8 ''x_LTC''] example_world)) = ''BTC''"
    by (simp add: eval_model eval_strings)
  show ?thesis
    using done_commits_working_pairs [OF h1 h2, of 123] h1 h2 by (simp only: h3 h4) simp
qed

subsection \<open>C6: the dialog for the maximum of open trades\<close>



subsection \<open>C7: one retry of a delivery\<close>

text \<open>
  C7. With the module enabled, \<open>send_msg\<close> calls the transport once; if that call fails with
  a network error it logs a warning and calls the transport a second time with the same
  arguments, and never a third time. A failure of the second call, or a first failure of
  another kind, is logged, and in no case does \<open>send_msg\<close> raise: two network failures in a
  row are two attempts and then silence.
\<close>

theorem send_msg_retries_once:
  "is_enabled w \<Longrightarrow>
   fst (send_msg msg pm w) = None \<and>
   effects (snd (send_msg msg pm w)) =
     effects w @
       (if next_outcome (network w) = NetworkFailure
        then [Transport (send_call w msg pm) NetworkFailure,
              Transport (send_call w msg pm) (next_outcome (tl (network w)))]
        else [Transport (send_call w msg pm) (next_outcome (network w))]) \<and>
   logged (snd (send_msg msg pm w)) =
     logged w @
       (if next_outcome (network w) = NetworkFailure
        then TryingOneMoreTime #
               (case raised (next_outcome (tl (network w))) of
                  None \<Rightarrow> []
                | Some e \<Rightarrow> [GivingUp e])
        else (case raised (next_outcome (network w)) of
                None \<Rightarrow> []
              | Some e \<Rightarrow> [GivingUp e]))"
  using send_msg_fst send_msg_effects send_msg_logged by blast

theorem send_msg_retries_once_witness:
  "is_enabled (example_world\<lparr>network := [NetworkFailure, NetworkFailure]\<rparr>) \<and>
   fst (send_msg Help MARKDOWN (example_world\<lparr>network := [NetworkFailure, NetworkFailure]\<rparr>)) = None \<and>
   effects (snd (send_msg Help MARKDOWN (example_world\<lparr>network := [NetworkFailure, NetworkFailure]\<rparr>))) =
     [Transport (SendMessage 123 Help (Some MARKDOWN) (Some (ReplyKeyboardMarkup keyboard))) NetworkFailure,
      Transport (SendMessage 123 Help (Some MARKDOWN) (Some (ReplyKeyboardMarkup keyboard))) NetworkFailure] \<and>
   logged (snd (send_msg Help MARKDOWN (example_world\<lparr>network := [NetworkFailure, NetworkFailure]\<rparr>))) =
     [TryingOneMoreTime, GivingUp NetworkError]"
  using send_msg_retries_once [of "example_world\<lparr>network := [NetworkFailure, NetworkFailure]\<rparr>" Help MARKDOWN]
  by (simp add: is_enabled_def example_world_def example_conf_def next_outcome_def send_call_def)

subsection \<open>C8: the window of /daily\<close>



subsection \<open>C9: the values that the dialogs commit\<close>




subsection \<open>C10: /start and /forcesell answer on error only\<close>

text \<open>
  C10. With the module enabled and the command coming from the configured chat, /start
  calls the transport if and only if \<^verbatim>\<open>rpc_start\<close> returns its error flag set, and
  /forcesell if and only if \<^verbatim>\<open>rpc_forcesell\<close>, given the text after the command word, does:
  when the backend succeeds, nothing is sent.
\<close>

theorem start_forcesell_reply_iff_error:
  assumes "is_enabled w" and "chat = telegram_chat_id (CONF w)"
  shows "(calls_of (effects (snd (dispatch B (CommandUpdate chat ''start'' text) w)))
            \<noteq> calls_of (effects w)
          \<longleftrightarrow> fst (rpc_start B)) \<and>
         (calls_of (effects (snd (dispatch B (CommandUpdate chat ''forcesell'' text) w)))
            \<noteq> calls_of (effects w)
          \<longleftrightarrow> fst (rpc_forcesell B (py_strip (py_replace ''/forcesell'' [] text))))"
proof -
  let ?w1 = "logger (Executing ''_start'' (telegram_chat_id (CONF w))) w"
  let ?w2 = "logger (Executing ''_forcesell'' (telegram_chat_id (CONF w))) w"
  have e1: "is_enabled ?w1" and e2: "is_enabled ?w2"
    using assms(1) by (simp_all add: logger_fields)
  have s1: "calls_of (effects (snd (send_msg m MARKDOWN ?w1))) \<noteq> calls_of (effects w)" for m
    using send_msg_calls [OF e1, of m MARKDOWN] by (simp add: logger_fields)
  have s2: "calls_of (effects (snd (send_msg m MARKDOWN ?w2))) \<noteq> calls_of (effects w)" for m
    using send_msg_calls [OF e2, of m MARKDOWN] by (simp add: logger_fields)
  show ?thesis
    unfolding assms(2) start_result forcesell_result
    using s1 s2 by (simp add: logger_fields)
qed

theorem start_forcesell_reply_iff_error_witness:
  "is_enabled example_world \<and> 123 = telegram_chat_id (CONF example_world) \<and>
   fst (rpc_start example_backend) \<and>
   calls_of (effects (snd (dispatch example_backend
                             (CommandUpdate 123 ''start'' ''/forcesell all'') example_world)))
     \<noteq> calls_of (effects example_world) \<and>
   \<not> fst (rpc_forcesell example_backend (py_strip (py_replace ''/forcesell'' [] ''/forcesell all''))) \<and>
   calls_of (effects (snd (dispatch example_backend
                             (CommandUpdate 123 ''forcesell'' ''/forcesell all'') example_world)))
     = calls_of (effects example_world)"
proof -
  have h1: "is_enabled example_world"
    by (simp add: is_enabled_def example_world_def example_conf_def)
  have h2: "123 = telegram_chat_id (CONF example_world)"
    by (simp add: example_world_def example_conf_def)
  have a: "fst (rpc_start example_backend)"
    by (simp add: example_backend_def)
  have b: "\<not> fst (rpc_forcesell example_backend
                     (py_strip (py_replace ''/forcesell'' [] ''/forcesell all'')))"
    by (simp add: example_backend_def eval_strings)
  show ?thesis
    using start_forcesell_reply_iff_error [OF h1 h2, of example_backend "''/forcesell all''"]
      h1 h2 a b
    by blast
qed

end
